theory Spec2Isabelle
  imports Main "HOL-Library.Word" "HOL-Library.Sublist"
begin

section \<open>Python values and library functions used by nvme-huawei.py\<close>

text \<open>
  The program works on two Python types that must be kept apart: \<open>bytes\<close> (the image
  read in binary mode) and \<open>str\<close> (the hex-encoded catalog keys, the decoded values and
  everything that is printed). A byte is an 8-bit word; a \<open>str\<close> is a \<open>string\<close>. The
  texts that the program decodes from the image are ASCII, so 8-bit characters lose
  nothing there.
\<close>

type_synonym byte = "8 word"
type_synonym bytes = "byte list"

datatype error =
    RuntimeError string
  | OSError string
  | UnicodeDecodeError
  | ValueError
  | FileNotFoundError string
  | UnboundLocalError string

text \<open>The second argument of \<open>get_value_offset\<close> is untyped in the source.\<close>

datatype pyvalue = Bytes bytes | Str string

definition chr_of_byte :: "byte \<Rightarrow> char" where
  "chr_of_byte b = char_of (unat b)"

definition byte_of_chr :: "char \<Rightarrow> byte" where
  "byte_of_chr c = of_char c"

text \<open>A bytes literal \<open>b'...'\<close> of the source, written with its ASCII text.\<close>

definition bytes_lit :: "string \<Rightarrow> bytes" where
  "bytes_lit s = map byte_of_chr s"

subsection \<open>bytes.fromhex\<close>

text \<open>
  CPython's \<open>bytes.fromhex\<close>: ASCII whitespace is skipped before each pair of hex digits,
  every other character that is not a hex digit, and a digit with no partner, raise
  ValueError (\<open>None\<close> here).
\<close>

definition Py_ISSPACE :: "char \<Rightarrow> bool" where
  "Py_ISSPACE c = (let n = (of_char c :: nat) in (9 \<le> n \<and> n \<le> 13) \<or> n = 32)"

definition hex_digit :: "char \<Rightarrow> nat option" where
  "hex_digit c =
     (let n = (of_char c :: nat) in
      if 48 \<le> n \<and> n \<le> 57 then Some (n - 48)
      else if 97 \<le> n \<and> n \<le> 102 then Some (n - 87)
      else if 65 \<le> n \<and> n \<le> 70 then Some (n - 55)
      else None)"

fun fromhex :: "string \<Rightarrow> bytes option" where
  "fromhex [] = Some []"
| "fromhex [c] = (if Py_ISSPACE c then Some [] else None)"
| "fromhex (c # d # cs) =
     (if Py_ISSPACE c then fromhex (d # cs)
      else (case hex_digit c of
              None \<Rightarrow> None
            | Some hi \<Rightarrow>
                (case hex_digit d of
                   None \<Rightarrow> None
                 | Some lo \<Rightarrow>
                     (case fromhex cs of
                        None \<Rightarrow> None
                      | Some bs \<Rightarrow> Some (of_nat (hi * 16 + lo) # bs)))))"

subsection \<open>bytes.find\<close>

text \<open>
  \<open>data.find(sub)\<close>: the lowest index at which \<open>sub\<close> starts in \<open>data\<close>, and \<open>-1\<close> when
  there is none. \<open>find_from i\<close> searches a suffix of the data that starts at index \<open>i\<close>.
\<close>

fun find_from :: "nat \<Rightarrow> bytes \<Rightarrow> bytes \<Rightarrow> int" where
  "find_from i [] sub = (if sub = [] then int i else - 1)"
| "find_from i (x # xs) sub =
     (if prefix sub (x # xs) then int i else find_from (Suc i) xs sub)"

definition bytes_find :: "bytes \<Rightarrow> bytes \<Rightarrow> int" where
  "bytes_find data sub = find_from 0 data sub"

subsection \<open>bytes.decode('ascii', errors)\<close>

datatype errors_mode = Strict | Ignore

fun decode_ascii :: "errors_mode \<Rightarrow> bytes \<Rightarrow> error + string" where
  "decode_ascii m [] = Inr []"
| "decode_ascii m (b # bs) =
     (if b < 128 then
        (case decode_ascii m bs of Inl e \<Rightarrow> Inl e | Inr s \<Rightarrow> Inr (chr_of_byte b # s))
      else (case m of Strict \<Rightarrow> Inl UnicodeDecodeError | Ignore \<Rightarrow> decode_ascii m bs))"

subsection \<open>str(bytes): the repr of a bytes object\<close>

definition Py_hexdigits :: "nat \<Rightarrow> char" where
  "Py_hexdigits n = ''0123456789abcdef'' ! n"

definition repr_byte :: "char \<Rightarrow> byte \<Rightarrow> string" where
  "repr_byte quote b =
     (let c = chr_of_byte b in
      if c = quote \<or> b = 92 then [CHR 0x5C, c]
      else if b = 9 then [CHR 0x5C, CHR ''t'']
      else if b = 10 then [CHR 0x5C, CHR ''n'']
      else if b = 13 then [CHR 0x5C, CHR ''r'']
      else if b < 32 \<or> 127 \<le> b then
        [CHR 0x5C, CHR ''x'', Py_hexdigits (unat b div 16), Py_hexdigits (unat b mod 16)]
      else [c])"

definition bytes_repr :: "bytes \<Rightarrow> string" where
  "bytes_repr bs =
     (let quote = (if 39 \<in> set bs \<and> 34 \<notin> set bs then CHR 0x22 else CHR 0x27)
      in [CHR ''b'', quote] @ concat (map (repr_byte quote) bs) @ [quote])"

subsection \<open>re.search('[a-z0-9]', s, re.IGNORECASE)\<close>

text \<open>
  The search succeeds when some character of the text is in the class: a letter \<open>a\<close> to
  \<open>z\<close> (codes 97 to 122), by IGNORECASE a letter \<open>A\<close> to \<open>Z\<close> (codes 65 to 90), or a
  digit (codes 48 to 57). The characters beyond ASCII that IGNORECASE folds onto a
  letter have codes above 255 and cannot come out of an ASCII decoding.
\<close>

definition alnum_class :: "char \<Rightarrow> bool" where
  "alnum_class c =
     (let n = (of_char c :: nat) in
      (97 \<le> n \<and> n \<le> 122) \<or> (65 \<le> n \<and> n \<le> 90) \<or> (48 \<le> n \<and> n \<le> 57))"

primrec re_search :: "string \<Rightarrow> bool" where
  "re_search [] = False"
| "re_search (c # cs) = (alnum_class c \<or> re_search cs)"

subsection \<open>Formatting an int with str.format\<close>

definition digit_char :: "nat \<Rightarrow> char" where
  "digit_char n = ''0123456789'' ! n"

fun str_nat :: "nat \<Rightarrow> string" where
  "str_nat n = (if n < 10 then [digit_char n] else str_nat (n div 10) @ [digit_char (n mod 10)])"

declare str_nat.simps [simp del]

definition str_int :: "int \<Rightarrow> string" where
  "str_int i = (if i < 0 then CHR ''-'' # str_nat (nat (- i)) else str_nat (nat i))"

subsection \<open>A file opened with open(path, "rb")\<close>

text \<open>
  The image file is opened several times during one run and never written; every open
  sees the same bytes. A file object is those bytes and a cursor. Seeking before the
  start of the file raises OSError (EINVAL); seeking past the end is allowed and the
  next read is empty; a read returns at most the bytes that are left and advances the
  cursor by what it returned.
\<close>

record pyfile =
  fp_data :: bytes
  fp_pos :: nat

definition open_rb :: "bytes \<Rightarrow> pyfile" where
  "open_rb img = \<lparr>fp_data = img, fp_pos = 0\<rparr>"

definition seek :: "pyfile \<Rightarrow> int \<Rightarrow> error + pyfile" where
  "seek fp n =
     (if n < 0 then Inl (OSError ''[Errno 22] Invalid argument'')
      else Inr (fp\<lparr>fp_pos := nat n\<rparr>))"

definition read :: "pyfile \<Rightarrow> nat \<Rightarrow> bytes \<times> pyfile" where
  "read fp n =
     (let chunk = take n (drop (fp_pos fp) (fp_data fp))
      in (chunk, fp\<lparr>fp_pos := fp_pos fp + length chunk\<rparr>))"

definition read_all :: "pyfile \<Rightarrow> bytes \<times> pyfile" where
  "read_all fp =
     (let chunk = drop (fp_pos fp) (fp_data fp)
      in (chunk, fp\<lparr>fp_pos := fp_pos fp + length chunk\<rparr>))"

section \<open>The program\<close>

subsection \<open>Module constants\<close>


definition MAGIC :: string where
  "MAGIC = ''486973692D4E562D506172746974696F6E''"

definition MAX_GAP :: int where
  "MAX_GAP = 20"

definition STRING_LENGHT :: nat where
  "STRING_LENGHT = 45"

text \<open>The dictionary keeps insertion order; the loop of \<open>main\<close> walks its keys.\<close>

definition VALUES :: "(string \<times> string) list" where
  "VALUES =
     [(''53575645525349'', ''SWVERSI''),
      (''424F4152444944'', ''BOARDID''),
      (''534E'', ''SN''),
      (''4D414341444452'', ''MACADDR''),
      (''4D44415445'', ''MDATE''),
      (''4553575652'', ''ESWVR''),
      (''4953575652'', ''ISWVR''),
      (''4548575652'', ''EHWVR''),
      (''4948575652'', ''IHWVR''),
      (''544D4D49'', ''TMMI''),
      (''4D4143574C414E'', ''MACWLAN''),
      (''4D41434254'', ''MACBT''),
      (''57564C4F434B'', ''WVLOCK''),
      (''57564445564944'', ''WVDEVID''),
      (''48494D4E544E'', ''HIMNTN''),
      (''44554D5043544C'', ''DUMPCTL''),
      (''4652504B4559'', ''FRPKEY''),
      (''53504B5F5041'', ''SPK_PA''),
      (''4249444241434B'', ''BIDBACK''),
      (''5450434F4C4F52'', ''TPCOLOR'')]"

subsection \<open>get_value_offset\<close>

text \<open>
  \<open>data\<close> is always the image, a bytes object. \<open>data.find(value)\<close> raises TypeError for
  a \<open>str\<close> argument, and the handler searches for \<open>bytes.fromhex(value)\<close> instead.
\<close>

definition get_value_offset :: "bytes \<Rightarrow> pyvalue \<Rightarrow> error + int" where
  "get_value_offset data v =
     (if int (length data) \<le> 0 then Inl (RuntimeError ''Given data is too short!'')
      else (case v of
              Bytes b \<Rightarrow> Inr (bytes_find data b)
            | Str s \<Rightarrow>
                (case fromhex s of
                   None \<Rightarrow> Inl (RuntimeError ''Could not determine the type of the given value!'')
                 | Some b \<Rightarrow> Inr (bytes_find data b))))"

subsection \<open>get_gap_num\<close>

definition get_gap_num :: "string \<Rightarrow> int" where
  "get_gap_num s = MAX_GAP - int (length s)"

subsection \<open>parse_null_bytes\<close>

definition parse_null_bytes :: "bytes \<Rightarrow> error + int" where
  "parse_null_bytes img =
     (let fp = open_rb img;
          (DATA, fp1) = read_all fp
      in (case get_value_offset DATA (Str MAGIC) of
            Inl e \<Rightarrow> Inl e
          | Inr OFFSET \<Rightarrow>
              (case seek fp1 OFFSET of
                 Inl e \<Rightarrow> Inl e
               | Inr fp2 \<Rightarrow>
                   (let (HDR, fp3) = read fp2 17
                    in if HDR \<noteq> bytes_lit ''Hisi-NV-Partition''
                       then Inl (RuntimeError
                              (''Expected '' @ MAGIC @ '' but got '' @ bytes_repr HDR @ ''!''))
                       else Inr OFFSET))))"

subsection \<open>parse_string\<close>

text \<open>
  The \<open>try\<close> chain of lines 108 to 114. Each handler calls \<open>fp.read\<close> again, on the file
  object whose cursor the failed attempt has already advanced.
\<close>

definition read_value :: "pyfile \<Rightarrow> string" where
  "read_value fp =
     (let (b1, fp1) = read fp STRING_LENGHT
      in (case decode_ascii Strict b1 of
            Inr s \<Rightarrow> s
          | Inl e1 \<Rightarrow>
              (let (b2, fp2) = read fp1 STRING_LENGHT
               in (case decode_ascii Ignore b2 of
                     Inr s \<Rightarrow> s
                   | Inl e2 \<Rightarrow>
                       (let (b3, fp3) = read fp2 STRING_LENGHT in bytes_repr b3)))))"

text \<open>The test of lines 116 to 119 on the decoded text.\<close>

definition null_or_value :: "string \<Rightarrow> string" where
  "null_or_value v = (if \<not> re_search v \<or> v = [] then ''NULL'' else v)"

definition parse_string :: "int \<Rightarrow> int \<Rightarrow> bytes \<Rightarrow> int \<Rightarrow> error + string" where
  "parse_string offset gap img buf =
     (case seek (open_rb img) (offset + buf + gap) of
        Inl e \<Rightarrow> Inl e
      | Inr fp \<Rightarrow> Inr (null_or_value (read_value fp)))"

subsection \<open>main\<close>



text \<open>
  One pass of the loop body (lines 155 to 165) for the catalog key \<open>VALUE\<close>: the line it
  prints, or the exception that ends the run. \<open>DATA\<close> is the image read by \<open>main\<close>; the
  file that \<open>parse_string\<close> reopens holds the same bytes.
\<close>

definition scan_entry :: "bool \<Rightarrow> bytes \<Rightarrow> string \<Rightarrow> error + string" where
  "scan_entry debug DATA VALUE =
     (case get_value_offset DATA (Str VALUE) of
        Inl e \<Rightarrow> Inl e
      | Inr VALUE_OFFSET \<Rightarrow>
          (let VALUE_GAP = get_gap_num VALUE
           in (case fromhex VALUE of
                 None \<Rightarrow> Inl ValueError
               | Some tag \<Rightarrow>
                   (case parse_string VALUE_OFFSET VALUE_GAP DATA (int (length tag)) of
                      Inl e \<Rightarrow> Inl e
                    | Inr VALUE_RES \<Rightarrow>
                        (case decode_ascii Strict tag of
                           Inl e \<Rightarrow> Inl e
                         | Inr name \<Rightarrow>
                             Inr (if debug
                                  then name @ '' = '' @ VALUE_RES @ '' (OFFSET = '' @
                                       str_int VALUE_OFFSET @ '') (LENGHT = '' @
                                       str_int (int (length VALUE)) @ '')''
                                  else name @ '' = '' @ VALUE_RES))))))"

text \<open>The loop: the lines printed so far, and the exception that stopped it, if any.\<close>

fun scan_loop :: "bool \<Rightarrow> bytes \<Rightarrow> string list \<Rightarrow> string list \<Rightarrow> string list \<times> error option" where
  "scan_loop debug DATA [] out = (out, None)"
| "scan_loop debug DATA (v # vs) out =
     (case scan_entry debug DATA v of
        Inl e \<Rightarrow> (out, Some e)
      | Inr line \<Rightarrow> scan_loop debug DATA vs (out @ [line]))"



section \<open>Example images\<close>

text \<open>
  The image of the specification's end-to-end scenario: the partition header, zero
  bytes up to offset 1000, the tag \<open>SN\<close>, 18 zero bytes, and the text \<open>A1B2C3D4\<close> padded
  with zero bytes to 45 bytes.
\<close>

definition sn_image :: bytes where
  "sn_image =
     bytes_lit ''Hisi-NV-Partition'' @ replicate 983 0 @ [83, 78] @ replicate 18 0 @
     bytes_lit ''A1B2C3D4'' @ replicate 37 0"

text \<open>
  A short image: the header, the tag \<open>SN\<close> at offset 17, 16 zero bytes, and the ten
  bytes \<open>XYA1B2C3D4\<close> up to the end of the file.
\<close>

definition gap_image :: bytes where
  "gap_image = bytes_lit ''Hisi-NV-Partition'' @ [83, 78] @ replicate 16 0 @ bytes_lit ''XYA1B2C3D4''"

text \<open>An image with the header and 60 zero bytes: it holds no catalog tag.\<close>

definition blank_image :: bytes where
  "blank_image = bytes_lit ''Hisi-NV-Partition'' @ replicate 60 0"

text \<open>A byte that is not ASCII, 44 bytes \<open>A\<close>, then 45 bytes \<open>B\<close>.\<close>

definition fallback_image :: bytes where
  "fallback_image = [128] @ replicate 44 65 @ replicate 45 66"


section \<open>Facts about the library functions\<close>

lemma prefix_take_iff: "prefix m xs = (take (length m) xs = m)"
proof
  assume "prefix m xs"
  then obtain zs where "xs = m @ zs" by (auto simp: prefix_def)
  then show "take (length m) xs = m" by simp
next
  assume "take (length m) xs = m"
  then show "prefix m xs" by (metis take_is_prefix)
qed

lemma find_from_not_found: "(find_from i data sub = - 1) = (\<not> sublist sub data)"
proof (induction data arbitrary: i)
  case Nil
  show ?case by simp
next
  case (Cons x xs)
  show ?case
    by (simp add: Cons.IH sublist_Cons_right)
qed

lemma find_from_found:
  "find_from i data sub \<noteq> - 1 \<Longrightarrow>
   \<exists>k. find_from i data sub = int (i + k) \<and> prefix sub (drop k data) \<and>
       (\<forall>j<k. \<not> prefix sub (drop j data))"
proof (induction data arbitrary: i)
  case Nil
  then have "sub = []" by (simp split: if_splits)
  then have "find_from i [] sub = int (i + 0) \<and> prefix sub (drop 0 []) \<and>
      (\<forall>j<0. \<not> prefix sub (drop j []))"
    by simp
  then show ?case by blast
next
  case (Cons x xs)
  show ?case
  proof (cases "prefix sub (x # xs)")
    case True
    then have "find_from i (x # xs) sub = int (i + 0) \<and> prefix sub (drop 0 (x # xs)) \<and>
        (\<forall>j<0. \<not> prefix sub (drop j (x # xs)))"
      by simp
    then show ?thesis by blast
  next
    case False
    with Cons.prems have "find_from (Suc i) xs sub \<noteq> - 1" by simp
    from Cons.IH [OF this] obtain k where
      k: "find_from (Suc i) xs sub = int (Suc i + k)" "prefix sub (drop k xs)"
         "\<forall>j<k. \<not> prefix sub (drop j xs)"
      by blast
    have later: "\<forall>j<Suc k. \<not> prefix sub (drop j (x # xs))"
    proof (intro allI impI)
      fix j assume "j < Suc k"
      then show "\<not> prefix sub (drop j (x # xs))"
        using False k(3) by (cases j) auto
    qed
    have "find_from i (x # xs) sub = int (i + Suc k)"
      using False k(1) by simp
    moreover have "prefix sub (drop (Suc k) (x # xs))"
      using k(2) by simp
    ultimately show ?thesis using later by blast
  qed
qed

lemma find_from_skip:
  "s \<notin> set pre \<Longrightarrow>
   find_from i (pre @ rest) (s # ss) = find_from (i + length pre) rest (s # ss)"
  by (induction pre arbitrary: i) auto

lemma find_from_here: "prefix sub rest \<Longrightarrow> find_from i rest sub = int i"
  by (cases rest) auto

lemma decode_ascii_Ignore:
  "decode_ascii Ignore bs = Inr (map chr_of_byte (filter (\<lambda>b. b < 128) bs))"
  by (induction bs) auto

lemma decode_ascii_Strict:
  "decode_ascii Strict bs =
     (if list_all (\<lambda>b. b < 128) bs then Inr (map chr_of_byte bs) else Inl UnicodeDecodeError)"
  by (induction bs) auto

lemma list_all_replicate: "list_all P (replicate n x) = (n = 0 \<or> P x)"
  by (induction n) auto

lemma re_search_append: "re_search (xs @ ys) = (re_search xs \<or> re_search ys)"
  by (induction xs) auto

lemma re_search_set: "re_search s = (\<exists>c\<in>set s. alnum_class c)"
  by (induction s) auto

lemma re_search_replicate: "re_search (replicate n c) = (0 < n \<and> alnum_class c)"
  by (induction n) auto



lemmas chr_eval = chr_of_byte_def char_of_def bit_Suc_0_iff

lemmas lit_eval = bytes_lit_def byte_of_chr_def

lemma fromhex_MAGIC: "fromhex MAGIC = Some (bytes_lit ''Hisi-NV-Partition'')"
  by (simp add: MAGIC_def lit_eval hex_digit_def Py_ISSPACE_def Let_def)

lemma fromhex_SN: "fromhex ''534E'' = Some [83, 78]"
  by (simp add: hex_digit_def Py_ISSPACE_def Let_def)

lemma read_value_eq:
  "read_value fp =
     (let b1 = take STRING_LENGHT (drop (fp_pos fp) (fp_data fp)) in
      if list_all (\<lambda>b. b < 128) b1 then map chr_of_byte b1
      else map chr_of_byte (filter (\<lambda>b. b < 128)
             (take STRING_LENGHT (drop (fp_pos fp + length b1) (fp_data fp)))))"
  by (simp add: read_value_def read_def Let_def decode_ascii_Ignore decode_ascii_Strict)

lemma parse_string_eq:
  "parse_string offset gap img buf =
     (if offset + buf + gap < 0 then Inl (OSError ''[Errno 22] Invalid argument'')
      else Inr (null_or_value
             (read_value \<lparr>fp_data = img, fp_pos = nat (offset + buf + gap)\<rparr>)))"
  by (simp add: parse_string_def seek_def open_rb_def)

lemmas value_eval =
  parse_string_eq read_value_eq Let_def STRING_LENGHT_def null_or_value_def
  re_search_append re_search_replicate alnum_class_def list_all_replicate

lemma parse_null_bytes_eq:
  "parse_null_bytes img =
     (if img = [] then Inl (RuntimeError ''Given data is too short!'')
      else if bytes_find img (bytes_lit ''Hisi-NV-Partition'') < 0
      then Inl (OSError ''[Errno 22] Invalid argument'')
      else if take 17 (drop (nat (bytes_find img (bytes_lit ''Hisi-NV-Partition''))) img)
                \<noteq> bytes_lit ''Hisi-NV-Partition''
      then Inl (RuntimeError
             (''Expected '' @ MAGIC @ '' but got '' @
              bytes_repr (take 17
                (drop (nat (bytes_find img (bytes_lit ''Hisi-NV-Partition''))) img)) @
              ''!''))
      else Inr (bytes_find img (bytes_lit ''Hisi-NV-Partition'')))"
  by (simp add: parse_null_bytes_def open_rb_def read_all_def read_def seek_def
      get_value_offset_def fromhex_MAGIC Let_def)

lemma get_value_offset_Str:
  "data \<noteq> [] \<Longrightarrow> fromhex key = Some tag \<Longrightarrow>
   get_value_offset data (Str key) = Inr (bytes_find data tag)"
  by (simp add: get_value_offset_def)

lemma sn_image_find: "bytes_find sn_image [83, 78] = 1000"
proof -
  have "find_from 0 ((bytes_lit ''Hisi-NV-Partition'' @ replicate 983 0) @
          ([83, 78] @ replicate 18 0 @ bytes_lit ''A1B2C3D4'' @ replicate 37 0)) (83 # [78]) =
        find_from (0 + length (bytes_lit ''Hisi-NV-Partition'' @ replicate 983 0))
          ([83, 78] @ replicate 18 0 @ bytes_lit ''A1B2C3D4'' @ replicate 37 0) (83 # [78])"
    by (rule find_from_skip) (simp add: lit_eval)
  also have "\<dots> = 1000"
    by (simp add: lit_eval)
  finally show ?thesis
    by (simp add: bytes_find_def sn_image_def)
qed

lemma header_then_SN_find:
  "bytes_find (bytes_lit ''Hisi-NV-Partition'' @ [83, 78] @ rest) [83, 78] = 17"
proof -
  have "find_from 0 (bytes_lit ''Hisi-NV-Partition'' @ ([83, 78] @ rest)) (83 # [78]) =
        find_from (0 + length (bytes_lit ''Hisi-NV-Partition'')) ([83, 78] @ rest) (83 # [78])"
    by (rule find_from_skip) (simp add: lit_eval)
  also have "\<dots> = 17"
    by (simp add: lit_eval)
  finally show ?thesis
    by (simp add: bytes_find_def)
qed

lemma blank_image_find:
  "s \<notin> set blank_image \<Longrightarrow> bytes_find blank_image (s # ss) = - 1"
proof -
  assume "s \<notin> set blank_image"
  then have "find_from 0 (blank_image @ []) (s # ss) =
      find_from (0 + length blank_image) [] (s # ss)"
    by (rule find_from_skip)
  then show ?thesis
    by (simp add: bytes_find_def)
qed

lemma scan_entry_eq:
  "get_value_offset DATA (Str VALUE) = Inr off \<Longrightarrow> fromhex VALUE = Some tag \<Longrightarrow>
   parse_string off (get_gap_num VALUE) DATA (int (length tag)) = Inr res \<Longrightarrow>
   decode_ascii Strict tag = Inr name \<Longrightarrow>
   scan_entry debug DATA VALUE =
     Inr (if debug
          then name @ '' = '' @ res @ '' (OFFSET = '' @ str_int off @ '') (LENGHT = '' @
               str_int (int (length VALUE)) @ '')''
          else name @ '' = '' @ res)"
  by (simp add: scan_entry_def)




lemma catalog_keys:
  "list_all (\<lambda>(key, name). fromhex key = Some (bytes_lit name) \<and>
      get_gap_num key = MAX_GAP - 2 * int (length name)) VALUES"
  by (simp add: VALUES_def lit_eval hex_digit_def Py_ISSPACE_def Let_def get_gap_num_def
      MAX_GAP_def)

section \<open>The gap computation\<close>

text \<open>
  C3 (as the code has it). \<open>get_gap_num\<close> is total: for every string the gap and the
  length add up to \<open>MAX_GAP\<close> as integers, and a string longer than 20 characters gets a
  negative gap; no error is raised.
\<close>

theorem get_gap_num_sum:
  "get_gap_num s + int (length s) = MAX_GAP \<and> (20 < length s \<longrightarrow> get_gap_num s < 0)"
  by (simp add: get_gap_num_def MAX_GAP_def)

theorem get_gap_num_sum_witness:
  "get_gap_num ''SWVERSI'' + int (length ''SWVERSI'') = 20 \<and>
   get_gap_num ''53575645525349535756455253'' < 0"
  using get_gap_num_sum [of "''SWVERSI''"] get_gap_num_sum [of "''53575645525349535756455253''"]
  by (simp add: MAX_GAP_def)

text \<open>
  C3, counterexample: a string of 21 characters is given the gap \<open>-1\<close>, where the claim
  asks for an error.
\<close>

theorem get_gap_num_negative_counterexample:
  "get_gap_num ''AAAAAAAAAAAAAAAAAAAAA'' = - 1"
  by (simp add: get_gap_num_def MAX_GAP_def)

text \<open>
  C2, the code at the catalog entry \<open>534E\<close>. \<open>main\<close> passes the hex key to
  \<open>get_gap_num\<close>, so the gap is \<open>20 - 4 = 16\<close> and not \<open>20 - 2 = 18\<close>. On \<open>gap_image\<close> the
  tag is at offset 17: the loop reads from \<open>17 + 2 + 16 = 35\<close> and prints \<open>XYA1B2C3D4\<close>,
  while a gap of 20 minus the length of the display name \<open>SN\<close> reads from 37 and gives
  \<open>A1B2C3D4\<close>.
\<close>

theorem gap_from_hex_key:
  "get_gap_num ''534E'' = 16 \<and>
   scan_entry False gap_image ''534E'' = Inr ''SN = XYA1B2C3D4'' \<and>
   parse_string 17 (MAX_GAP - int (length ''SN'')) gap_image 2 = Inr ''A1B2C3D4''"
proof -
  have g: "get_gap_num ''534E'' = 16"
    by (simp add: get_gap_num_def MAX_GAP_def)
  have ne: "gap_image \<noteq> []"
    by (simp add: gap_image_def lit_eval)
  have f: "get_value_offset gap_image (Str ''534E'') = Inr 17"
    using get_value_offset_Str [OF ne fromhex_SN]
      header_then_SN_find [of "replicate 16 0 @ bytes_lit ''XYA1B2C3D4''"]
    by (simp add: gap_image_def)
  have p: "parse_string 17 (get_gap_num ''534E'') gap_image (int (length [83::byte, 78])) =
      Inr ''XYA1B2C3D4''"
    by (simp add: g value_eval gap_image_def lit_eval chr_eval)
  have q: "parse_string 17 (MAX_GAP - int (length ''SN'')) gap_image 2 = Inr ''A1B2C3D4''"
    by (simp add: MAX_GAP_def value_eval gap_image_def lit_eval chr_eval)
  have d: "decode_ascii Strict [83, 78] = Inr ''SN''"
    by (simp add: chr_eval)
  have s: "scan_entry False gap_image ''534E'' = Inr ''SN = XYA1B2C3D4''"
    using scan_entry_eq [OF f fromhex_SN p d, where debug = False] by simp
  show ?thesis using g s q by blast
qed

theorem gap_from_hex_key_witness:
  "scan_entry False gap_image ''534E'' \<noteq> Inr ''SN = A1B2C3D4''"
  using gap_from_hex_key by simp

section \<open>The tag search\<close>

text \<open>
  C5. On an empty buffer \<open>get_value_offset\<close> raises the "too short" RuntimeError whatever
  the tag is, also for a tag that is not valid hex; on a non-empty buffer that error is
  never raised and the result is the result of the search.
\<close>

theorem get_value_offset_empty_check:
  "(data = [] \<longrightarrow> get_value_offset data v = Inl (RuntimeError ''Given data is too short!'')) \<and>
   (data \<noteq> [] \<longrightarrow>
      get_value_offset data v \<noteq> Inl (RuntimeError ''Given data is too short!'') \<and>
      get_value_offset data (Bytes b) = Inr (bytes_find data b) \<and>
      (fromhex s = Some b \<longrightarrow> get_value_offset data (Str s) = Inr (bytes_find data b)) \<and>
      (fromhex s = None \<longrightarrow>
         get_value_offset data (Str s) =
           Inl (RuntimeError ''Could not determine the type of the given value!'')))"
  by (auto simp: get_value_offset_def split: pyvalue.splits option.splits)

theorem get_value_offset_empty_check_witness:
  "get_value_offset [] (Str ''zz'') = Inl (RuntimeError ''Given data is too short!'') \<and>
   get_value_offset [0, 83, 78] (Str ''534E'') = Inr 1 \<and>
   get_value_offset [0, 83, 78] (Str ''zz'') =
     Inl (RuntimeError ''Could not determine the type of the given value!'')"
proof -
  have h2: "fromhex ''zz'' = None"
    by (simp add: hex_digit_def Py_ISSPACE_def Let_def)
  have h3: "bytes_find [0, 83, 78] [83, 78] = 1"
    by (simp add: bytes_find_def)
  show ?thesis
    using get_value_offset_empty_check [where data = "[]" and v = "Str ''zz''" and b = "[]" and s = "[]"]
      get_value_offset_empty_check [where data = "[0, 83, 78]" and v = "Str ''534E''"
        and b = "[83, 78]" and s = "''534E''"]
      get_value_offset_empty_check [where data = "[0, 83, 78]" and v = "Str ''zz''"
        and b = "[]" and s = "''zz''"]
      fromhex_SN h2 h3
    by simp
qed

text \<open>
  C4, counterexample. \<open>blank_image\<close> does not hold the tag \<open>MACADDR\<close>. The search
  returns \<open>-1\<close>, the loop uses it as an offset, reads from \<open>-1 + 7 + 6 = 12\<close>, inside the
  header, and prints the text found there as the value of \<open>MACADDR\<close>.
\<close>

theorem absent_tag_counterexample:
  "get_value_offset blank_image (Str ''4D414341444452'') = Inr (- 1) \<and>
   scan_entry False blank_image ''4D414341444452'' =
     Inr (''MACADDR = ition'' @ replicate 40 (CHR 0x00))"
proof -
  have h: "fromhex ''4D414341444452'' = Some [77, 65, 67, 65, 68, 68, 82]"
    by (simp add: hex_digit_def Py_ISSPACE_def Let_def)
  have f: "bytes_find blank_image [77, 65, 67, 65, 68, 68, 82] = - 1"
    by (rule blank_image_find) (simp add: blank_image_def lit_eval)
  have ne: "blank_image \<noteq> []"
    by (simp add: blank_image_def lit_eval)
  have o: "get_value_offset blank_image (Str ''4D414341444452'') = Inr (- 1)"
    using get_value_offset_Str [OF ne h] f by simp
  have p: "parse_string (- 1) (get_gap_num ''4D414341444452'') blank_image
        (int (length [77::byte, 65, 67, 65, 68, 68, 82])) =
      Inr (''ition'' @ replicate 40 (CHR 0x00))"
    by (simp add: get_gap_num_def MAX_GAP_def value_eval blank_image_def lit_eval chr_eval)
  have d: "decode_ascii Strict [77, 65, 67, 65, 68, 68, 82] = Inr ''MACADDR''"
    by (simp add: chr_eval)
  have s: "scan_entry False blank_image ''4D414341444452'' =
      Inr (''MACADDR = ition'' @ replicate 40 (CHR 0x00))"
    using scan_entry_eq [OF o h p d, where debug = False] by simp
  show ?thesis using o s by blast
qed

text \<open>
  C4 (as the code has it). When the tag of a catalog key does not occur in a non-empty
  image, the search returns \<open>-1\<close> and the loop body goes on with it: the record is what
  \<open>parse_string\<close> reads at \<open>-1 + length tag + gap\<close>, printed like any other value, with no
  mark that the tag is absent. When that position is not negative and the tag is ASCII,
  the body prints a line and the loop goes on to the next key.
\<close>

theorem absent_tag_scan:
  assumes "data \<noteq> []" and "fromhex key = Some tag" and "\<not> sublist tag data"
  shows "get_value_offset data (Str key) = Inr (- 1) \<and>
     scan_entry debug data key =
       (case parse_string (- 1) (get_gap_num key) data (int (length tag)) of
          Inl e \<Rightarrow> Inl e
        | Inr v \<Rightarrow>
            (case decode_ascii Strict tag of
               Inl e \<Rightarrow> Inl e
             | Inr name \<Rightarrow>
                 Inr (name @ '' = '' @ v @
                      (if debug
                       then '' (OFFSET = '' @ str_int (- 1) @ '') (LENGHT = '' @
                            str_int (int (length key)) @ '')''
                       else [])))) \<and>
     (0 \<le> - 1 + int (length tag) + get_gap_num key \<and> decode_ascii Strict tag = Inr name \<longrightarrow>
        (\<exists>line. scan_entry debug data key = Inr line \<and>
           scan_loop debug data (key # keys) out = scan_loop debug data keys (out @ [line])))"
proof -
  have "bytes_find data tag = - 1"
    using assms(3) by (simp add: bytes_find_def find_from_not_found)
  then have o: "get_value_offset data (Str key) = Inr (- 1)"
    using get_value_offset_Str [OF assms(1) assms(2)] by simp
  have e: "scan_entry debug data key =
       (case parse_string (- 1) (get_gap_num key) data (int (length tag)) of
          Inl e \<Rightarrow> Inl e
        | Inr v \<Rightarrow>
            (case decode_ascii Strict tag of
               Inl e \<Rightarrow> Inl e
             | Inr name \<Rightarrow>
                 Inr (name @ '' = '' @ v @
                      (if debug
                       then '' (OFFSET = '' @ str_int (- 1) @ '') (LENGHT = '' @
                            str_int (int (length key)) @ '')''
                       else []))))"
    by (simp add: scan_entry_def o assms(2) Let_def split: sum.splits)
  have c: "0 \<le> - 1 + int (length tag) + get_gap_num key \<and> decode_ascii Strict tag = Inr name \<longrightarrow>
        (\<exists>line. scan_entry debug data key = Inr line \<and>
           scan_loop debug data (key # keys) out = scan_loop debug data keys (out @ [line]))"
  proof
    assume a: "0 \<le> - 1 + int (length tag) + get_gap_num key \<and> decode_ascii Strict tag = Inr name"
    then have "\<exists>v. parse_string (- 1) (get_gap_num key) data (int (length tag)) = Inr v"
      by (simp add: parse_string_eq)
    then obtain v where v: "parse_string (- 1) (get_gap_num key) data (int (length tag)) = Inr v"
      by blast
    have "\<exists>line. scan_entry debug data key = Inr line"
      using a v by (simp add: e)
    then obtain line where l: "scan_entry debug data key = Inr line" by blast
    then have "scan_loop debug data (key # keys) out = scan_loop debug data keys (out @ [line])"
      by simp
    with l show "\<exists>line. scan_entry debug data key = Inr line \<and>
           scan_loop debug data (key # keys) out = scan_loop debug data keys (out @ [line])"
      by blast
  qed
  show ?thesis using o e c by blast
qed

theorem absent_tag_scan_witness:
  "get_value_offset blank_image (Str ''544D4D49'') = Inr (- 1) \<and>
   scan_entry False blank_image ''544D4D49'' = Inr (''TMMI = on'' @ replicate 43 (CHR 0x00))"
proof -
  have h: "fromhex ''544D4D49'' = Some [84, 77, 77, 73]"
    by (simp add: hex_digit_def Py_ISSPACE_def Let_def)
  have f: "find_from 0 blank_image [84, 77, 77, 73] = - 1"
    using blank_image_find [of 84 "[77, 73, 73]"] blank_image_find [of 84 "[77, 77, 73]"]
    by (simp add: bytes_find_def blank_image_def lit_eval)
  have ns: "\<not> sublist [84, 77, 77, 73] blank_image"
    using f find_from_not_found [of 0 blank_image "[84, 77, 77, 73]"] by blast
  have ne: "blank_image \<noteq> []"
    by (simp add: blank_image_def lit_eval)
  have p: "parse_string (- 1) (get_gap_num ''544D4D49'') blank_image
        (int (length [84::byte, 77, 77, 73])) =
      Inr (''on'' @ replicate 43 (CHR 0x00))"
    by (simp add: get_gap_num_def MAX_GAP_def value_eval blank_image_def lit_eval chr_eval)
  have d: "decode_ascii Strict [84, 77, 77, 73] = Inr ''TMMI''"
    by (simp add: chr_eval)
  show ?thesis
    using absent_tag_scan [OF ne h ns, where debug = False] p d by simp
qed

text \<open>
  C1, the code on the scenario's image. The tag is found at offset 1000, the gap is
  taken from the hex key (16, not 18), and the 45 bytes from offset 1018 are decoded
  as they are: the record holds two NUL characters, \<open>A1B2C3D4\<close> and 35 more NUL
  characters, 45 characters in all, not the 8 characters \<open>A1B2C3D4\<close>.
\<close>

theorem sn_scenario_record:
  "get_value_offset sn_image (Str ''534E'') = Inr 1000 \<and>
   scan_entry False sn_image ''534E'' =
     Inr (''SN = '' @ replicate 2 (CHR 0x00) @ ''A1B2C3D4'' @ replicate 35 (CHR 0x00))"
proof -
  have ne: "sn_image \<noteq> []"
    by (simp add: sn_image_def lit_eval)
  have o: "get_value_offset sn_image (Str ''534E'') = Inr 1000"
    using get_value_offset_Str [OF ne fromhex_SN] sn_image_find by simp
  have g: "get_gap_num ''534E'' = 16"
    by (simp add: get_gap_num_def MAX_GAP_def)
  have p: "parse_string 1000 (get_gap_num ''534E'') sn_image (int (length [83::byte, 78])) =
      Inr (replicate 2 (CHR 0x00) @ ''A1B2C3D4'' @ replicate 35 (CHR 0x00))"
    by (simp add: g value_eval sn_image_def lit_eval chr_eval)
  have d: "decode_ascii Strict [83, 78] = Inr ''SN''"
    by (simp add: chr_eval)
  have s: "scan_entry False sn_image ''534E'' =
      Inr (''SN = '' @ replicate 2 (CHR 0x00) @ ''A1B2C3D4'' @ replicate 35 (CHR 0x00))"
    using scan_entry_eq [OF o fromhex_SN p d, where debug = False] by simp
  show ?thesis using o s by blast
qed

theorem sn_scenario_record_witness:
  "length (case scan_entry False sn_image ''534E'' of Inl e \<Rightarrow> [] | Inr line \<Rightarrow> line) = 50 \<and>
   length ''SN = A1B2C3D4'' = 13"
  using sn_scenario_record by simp

section \<open>The header\<close>

text \<open>
  What \<open>parse_null_bytes\<close> does on every image. An empty image fails with the
  "too short" RuntimeError of the tag search. A non-empty image without the magic fails
  with the OSError of the seek to \<open>-1\<close>. An image with the magic gives the offset of its
  first occurrence, and the 17 bytes read back there are the magic: the comparison of
  line 94 never fails, so the RuntimeError \<open>Expected ... but got ...\<close> is never raised.
\<close>

theorem parse_null_bytes_cases:
  "(img = [] \<longrightarrow> parse_null_bytes img = Inl (RuntimeError ''Given data is too short!'')) \<and>
   (img \<noteq> [] \<and> \<not> sublist (bytes_lit ''Hisi-NV-Partition'') img \<longrightarrow>
      parse_null_bytes img = Inl (OSError ''[Errno 22] Invalid argument'')) \<and>
   (sublist (bytes_lit ''Hisi-NV-Partition'') img \<longrightarrow>
      (\<exists>k. parse_null_bytes img = Inr (int k) \<and>
           take 17 (drop k img) = bytes_lit ''Hisi-NV-Partition'' \<and>
           (\<forall>j<k. take 17 (drop j img) \<noteq> bytes_lit ''Hisi-NV-Partition'')))"
proof -
  define m where "m = bytes_lit ''Hisi-NV-Partition''"
  have len: "length m = 17" by (simp add: m_def bytes_lit_def)
  have pt: "prefix m xs = (take 17 xs = m)" for xs
    using prefix_take_iff [of m xs] by (simp add: len)
  have c1: "img = [] \<longrightarrow> parse_null_bytes img = Inl (RuntimeError ''Given data is too short!'')"
    by (simp add: parse_null_bytes_eq)
  have c2: "img \<noteq> [] \<and> \<not> sublist m img \<longrightarrow>
      parse_null_bytes img = Inl (OSError ''[Errno 22] Invalid argument'')"
  proof
    assume a: "img \<noteq> [] \<and> \<not> sublist m img"
    then have "bytes_find img m = - 1"
      by (simp add: bytes_find_def find_from_not_found)
    with a show "parse_null_bytes img = Inl (OSError ''[Errno 22] Invalid argument'')"
      by (simp add: parse_null_bytes_eq m_def)
  qed
  have c3: "sublist m img \<longrightarrow>
      (\<exists>k. parse_null_bytes img = Inr (int k) \<and> take 17 (drop k img) = m \<and>
           (\<forall>j<k. take 17 (drop j img) \<noteq> m))"
  proof
    assume s: "sublist m img"
    have "m \<noteq> []" using len by auto
    with s have ne: "img \<noteq> []" by auto
    from s have "find_from 0 img m \<noteq> - 1"
      by (simp add: find_from_not_found)
    from find_from_found [OF this] obtain k where
      k: "find_from 0 img m = int (0 + k)" "prefix m (drop k img)"
         "\<forall>j<k. \<not> prefix m (drop j img)"
      by blast
    have b: "bytes_find img m = int k"
      using k(1) by (simp add: bytes_find_def)
    have t: "take 17 (drop k img) = m"
      using k(2) by (simp add: pt)
    have "parse_null_bytes img = Inr (int k)"
      using ne b t by (simp add: parse_null_bytes_eq m_def)
    moreover have "\<forall>j<k. take 17 (drop j img) \<noteq> m"
      using k(3) by (simp add: pt)
    ultimately show "\<exists>k. parse_null_bytes img = Inr (int k) \<and> take 17 (drop k img) = m \<and>
           (\<forall>j<k. take 17 (drop j img) \<noteq> m)"
      using t by blast
  qed
  show ?thesis
    using c1 c2 c3 unfolding m_def by blast
qed

theorem parse_null_bytes_cases_witness:
  "parse_null_bytes [] = Inl (RuntimeError ''Given data is too short!'') \<and>
   parse_null_bytes [0, 0] = Inl (OSError ''[Errno 22] Invalid argument'') \<and>
   (\<exists>k. parse_null_bytes ([0, 0] @ bytes_lit ''Hisi-NV-Partition'' @ [0]) = Inr (int k) \<and>
        take 17 (drop k ([0, 0] @ bytes_lit ''Hisi-NV-Partition'' @ [0])) =
          bytes_lit ''Hisi-NV-Partition'')"
proof -
  have ff: "find_from 0 [0, 0] (bytes_lit ''Hisi-NV-Partition'') = - 1"
    by (simp add: lit_eval)
  have ns: "\<not> sublist (bytes_lit ''Hisi-NV-Partition'') [0, 0]"
    using ff find_from_not_found [of 0 "[0, 0]" "bytes_lit ''Hisi-NV-Partition''"] by blast
  have s: "sublist (bytes_lit ''Hisi-NV-Partition'') ([0, 0] @ bytes_lit ''Hisi-NV-Partition'' @ [0])"
    by (rule sublist_appendI)
  show ?thesis
    using parse_null_bytes_cases [where img = "[]"]
      parse_null_bytes_cases [where img = "[0, 0]"]
      parse_null_bytes_cases [where img = "[0, 0] @ bytes_lit ''Hisi-NV-Partition'' @ [0]"]
      ns s
    by blast
qed

text \<open>
  C8, the code on images that hold no magic. \<open>parse_null_bytes\<close> has a diagnostic for a
  bad header, but a missing magic never reaches it: the empty image fails with the
  "too short" RuntimeError of the tag search, and the one-byte image with the OSError
  of seeking to the offset \<open>-1\<close> that the search returned. Neither is a report that the
  header was not found.
\<close>

theorem parse_null_bytes_no_magic:
  "parse_null_bytes [] = Inl (RuntimeError ''Given data is too short!'') \<and>
   parse_null_bytes [0] = Inl (OSError ''[Errno 22] Invalid argument'')"
proof -
  have "bytes_find [0] (bytes_lit ''Hisi-NV-Partition'') = - 1"
    by (simp add: bytes_find_def lit_eval)
  then show ?thesis
    by (simp add: parse_null_bytes_eq)
qed

theorem parse_null_bytes_no_magic_witness:
  "(case parse_null_bytes [0] of Inl e \<Rightarrow> e | Inr k \<Rightarrow> ValueError) =
     OSError ''[Errno 22] Invalid argument''"
  using parse_null_bytes_no_magic by simp

section \<open>The value extractor\<close>

text \<open>
  C6, the code on \<open>fallback_image\<close>, read from position 0. The first 45 bytes hold a byte
  that is not ASCII, so the strict decoding fails; the handler reads again, which gives
  the next 45 bytes, and the result is their decoding (45 times \<open>B\<close>), not the lenient
  decoding of the first 45 bytes (44 times \<open>A\<close>).
\<close>

theorem fallback_reads_next_bytes:
  "parse_string 0 0 fallback_image 0 = Inr (replicate 45 (CHR ''B'')) \<and>
   decode_ascii Strict (take STRING_LENGHT fallback_image) = Inl UnicodeDecodeError \<and>
   decode_ascii Ignore (take STRING_LENGHT fallback_image) = Inr (replicate 44 (CHR ''A''))"
proof -
  have a: "parse_string 0 0 fallback_image 0 = Inr (replicate 45 (CHR ''B''))"
    by (simp add: value_eval fallback_image_def filter_replicate chr_eval)
  have b: "decode_ascii Strict (take STRING_LENGHT fallback_image) = Inl UnicodeDecodeError"
    by (simp add: decode_ascii_Strict STRING_LENGHT_def fallback_image_def)
  have c: "decode_ascii Ignore (take STRING_LENGHT fallback_image) = Inr (replicate 44 (CHR ''A''))"
    by (simp add: decode_ascii_Ignore STRING_LENGHT_def fallback_image_def filter_replicate
        chr_eval)
  show ?thesis using a b c by blast
qed

theorem fallback_reads_next_bytes_witness:
  "parse_string 0 0 fallback_image 0 \<noteq> Inr (replicate 44 (CHR ''A''))"
proof
  assume "parse_string 0 0 fallback_image 0 = Inr (replicate 44 (CHR ''A''))"
  with fallback_reads_next_bytes
  have "replicate 45 (CHR ''B'') = replicate 44 (CHR ''A'')" by simp
  then have "length (replicate 45 (CHR ''B'')) = length (replicate 44 (CHR ''A''))"
    by (rule arg_cong)
  then show False by simp
qed

text \<open>
  C7. The extractor returns \<open>NULL\<close> if the decoded text is empty or has no character of
  \<open>[a-zA-Z0-9]\<close>, and otherwise returns the decoded text unchanged. (The unchanged text
  can itself be the four characters \<open>NULL\<close>; that is the only other way for the result
  to be \<open>NULL\<close>.) A value field of 45 zero bytes gives \<open>NULL\<close>, not an empty string and
  not a dump of the bytes.
\<close>

theorem null_or_value_cases:
  "null_or_value v = (if v = [] \<or> (\<forall>c\<in>set v. \<not> alnum_class c) then ''NULL'' else v) \<and>
   ((null_or_value v = ''NULL'') = (v = [] \<or> (\<forall>c\<in>set v. \<not> alnum_class c) \<or> v = ''NULL'')) \<and>
   (0 \<le> offset + buf + gap \<and>
    take STRING_LENGHT (drop (nat (offset + buf + gap)) img) = replicate 45 0 \<longrightarrow>
      parse_string offset gap img buf = Inr ''NULL'')"
proof -
  have a: "null_or_value v = (if v = [] \<or> (\<forall>c\<in>set v. \<not> alnum_class c) then ''NULL'' else v)"
    by (auto simp: null_or_value_def re_search_set)
  have n: "re_search ''NULL''"
    by (simp add: alnum_class_def Let_def)
  have b: "(null_or_value v = ''NULL'') = (v = [] \<or> (\<forall>c\<in>set v. \<not> alnum_class c) \<or> v = ''NULL'')"
  proof (cases "v = ''NULL''")
    case True
    with n show ?thesis by (simp add: null_or_value_def)
  next
    case False
    then show ?thesis by (simp add: a)
  qed
  have z: "\<not> alnum_class (chr_of_byte 0)"
    by (simp add: alnum_class_def chr_of_byte_def char_of_def Let_def)
  have c: "0 \<le> offset + buf + gap \<and>
    take STRING_LENGHT (drop (nat (offset + buf + gap)) img) = replicate 45 0 \<longrightarrow>
      parse_string offset gap img buf = Inr ''NULL''"
  proof
    assume h: "0 \<le> offset + buf + gap \<and>
      take STRING_LENGHT (drop (nat (offset + buf + gap)) img) = replicate 45 0"
    then have "read_value \<lparr>fp_data = img, fp_pos = nat (offset + buf + gap)\<rparr> =
        replicate 45 (chr_of_byte 0)"
      by (simp add: read_value_eq list_all_replicate)
    with h z show "parse_string offset gap img buf = Inr ''NULL''"
      by (simp add: parse_string_eq null_or_value_def re_search_replicate)
  qed
  show ?thesis using a b c by blast
qed

theorem null_or_value_cases_witness:
  "null_or_value ''A1B2'' = ''A1B2'' \<and> null_or_value ''-:-'' = ''NULL'' \<and>
   null_or_value [] = ''NULL'' \<and>
   parse_string 3 2 (replicate 60 0) 1 = Inr ''NULL''"
proof -
  have t: "0 \<le> (3::int) + 1 + 2 \<and>
      take STRING_LENGHT (drop (nat (3 + 1 + 2)) (replicate 60 (0::byte))) = replicate 45 0"
    by (simp add: STRING_LENGHT_def)
  show ?thesis
    using null_or_value_cases [where v = "''A1B2''" and offset = 3 and buf = 1 and gap = 2
        and img = "replicate 60 0"]
      null_or_value_cases [where v = "''-:-''" and offset = 3 and buf = 1 and gap = 2
        and img = "replicate 60 0"]
      null_or_value_cases [where v = "[]" and offset = 3 and buf = 1 and gap = 2
        and img = "replicate 60 0"]
      t
    by (simp add: alnum_class_def Let_def)
qed

text \<open>
  C10. Decoding with \<open>errors='ignore'\<close> never raises: it returns the bytes below 128 as
  characters. So the third attempt of \<open>parse_string\<close>, the textual dump of the bytes, is
  never taken: the value read is the strict decoding of the first read when that
  succeeds, and the lenient decoding of the second read otherwise.
\<close>

theorem lenient_decode_total:
  "decode_ascii Ignore bs = Inr (map chr_of_byte (filter (\<lambda>b. b < 128) bs)) \<and>
   read_value fp =
     (case decode_ascii Strict (fst (read fp STRING_LENGHT)) of
        Inr s \<Rightarrow> s
      | Inl e \<Rightarrow>
          map chr_of_byte (filter (\<lambda>b. b < 128)
            (fst (read (snd (read fp STRING_LENGHT)) STRING_LENGHT))))"
  by (simp add: read_value_def decode_ascii_Ignore split_beta Let_def split: sum.splits)

theorem lenient_decode_total_witness:
  "decode_ascii Ignore [65, 200, 66] = Inr ''AB'' \<and>
   read_value \<lparr>fp_data = [200, 65], fp_pos = 0\<rparr> = [] \<and>
   read_value \<lparr>fp_data = [67, 65], fp_pos = 0\<rparr> = ''CA''"
  using lenient_decode_total [where bs = "[65, 200, 66]"
      and fp = "\<lparr>fp_data = [200, 65], fp_pos = 0\<rparr>"]
    lenient_decode_total [where bs = "[]" and fp = "\<lparr>fp_data = [67, 65], fp_pos = 0\<rparr>"]
  by (simp add: read_def STRING_LENGHT_def Let_def chr_eval)

section \<open>The command line\<close>




end
